theory Spec2Isabelle
  imports Main "HOL-Library.AList"
begin

section \<open>Python values\<close>

text \<open>
  The data layer (\<^verbatim>\<open>utils/data.py\<close>) and the public routes
  (\<^verbatim>\<open>blueprints/portfolio/routes.py\<close>) exchange plain Python values: None, booleans,
  integers, strings, lists and dictionaries. A dictionary is an association list in
  insertion order; lookups go through \<^const>\<open>map_of\<close>, stores through
  \<^const>\<open>AList.update\<close> (replace in place, else append), as a Python dict does.
\<close>

datatype jval =
    JNull
  | JBool bool
  | JInt int
  | JStr string
  | JList "jval list"
  | JDict "(string \<times> jval) list"

datatype error =
    AttributeError
  | TypeError
  | KeyError
  | DatabaseError
  | JSONDecodeError
  | NotifyError

text \<open>Python truthiness, as used by \<^verbatim>\<open>x or default\<close> and \<^verbatim>\<open>if x:\<close>.\<close>

fun truthy :: "jval \<Rightarrow> bool" where
  "truthy JNull = False"
| "truthy (JBool b) = b"
| "truthy (JInt i) = (i \<noteq> 0)"
| "truthy (JStr s) = (s \<noteq> [])"
| "truthy (JList xs) = (xs \<noteq> [])"
| "truthy (JDict kvs) = (kvs \<noteq> [])"

definition py_or :: "jval \<Rightarrow> jval \<Rightarrow> jval" where
  "py_or a b = (if truthy a then a else b)"

text \<open>\<^verbatim>\<open>d.get(k, default)\<close> on a value known to be a dict.\<close>

definition dict_get :: "(string \<times> jval) list \<Rightarrow> string \<Rightarrow> jval \<Rightarrow> jval" where
  "dict_get kvs k d = (case map_of kvs k of None \<Rightarrow> d | Some v \<Rightarrow> v)"

text \<open>\<^verbatim>\<open>d.update(e)\<close>: every pair of \<open>e\<close> is stored into \<open>d\<close> in turn.\<close>

definition dict_update :: "(string \<times> jval) list \<Rightarrow> (string \<times> jval) list \<Rightarrow> (string \<times> jval) list" where
  "dict_update d e = foldl (\<lambda>acc kv. AList.update (fst kv) (snd kv) acc) d e"

text \<open>Whether a materialized mapping has a key at all (a key bound to None counts).\<close>

fun has_key :: "jval \<Rightarrow> string \<Rightarrow> bool" where
  "has_key (JDict kvs) k = (k \<in> set (map fst kvs))"
| "has_key _ k = False"

fun lookup :: "jval \<Rightarrow> string \<Rightarrow> jval option" where
  "lookup (JDict kvs) k = map_of kvs k"
| "lookup _ k = None"

section \<open>Dates and times\<close>

text \<open>
  A \<^verbatim>\<open>datetime\<close> value. Python only builds one whose fields are in range
  (\<open>valid_datetime\<close> below); the formatting functions are meant for those.
\<close>

record datetime =
  year :: nat
  month :: nat
  day :: nat
  hour :: nat
  minute :: nat
  second :: nat
  microsecond :: nat

definition valid_datetime :: "datetime \<Rightarrow> bool" where
  "valid_datetime d =
     (1 \<le> year d \<and> year d \<le> 9999 \<and> 1 \<le> month d \<and> month d \<le> 12 \<and> 1 \<le> day d \<and> day d \<le> 31
      \<and> hour d < 24 \<and> minute d < 60 \<and> second d < 60 \<and> microsecond d < 1000000)"

definition digit :: "nat \<Rightarrow> char" where
  "digit n = ''0123456789'' ! (n mod 10)"

definition pad2 :: "nat \<Rightarrow> string" where
  "pad2 n = [digit (n div 10), digit n]"

definition pad4 :: "nat \<Rightarrow> string" where
  "pad4 n = [digit (n div 1000), digit (n div 100), digit (n div 10), digit n]"

definition pad6 :: "nat \<Rightarrow> string" where
  "pad6 n = [digit (n div 100000), digit (n div 10000), digit (n div 1000),
             digit (n div 100), digit (n div 10), digit n]"

text \<open>A number in decimal, with no padding.\<close>

fun decimal :: "nat \<Rightarrow> string" where
  "decimal n = (if n < 10 then [digit n] else decimal (n div 10) @ [digit n])"

declare decimal.simps [simp del]

text \<open>
  \<^verbatim>\<open>strftime('%Y-%m-%d')\<close>. The C library's \<open>%Y\<close> prints the year as it is, without
  padding (the year 999 gives \<open>999-12-31\<close>); \<open>%m\<close> and \<open>%d\<close> print two digits.
\<close>

definition strftime_date :: "datetime \<Rightarrow> string" where
  "strftime_date d = decimal (year d) @ ''-'' @ pad2 (month d) @ ''-'' @ pad2 (day d)"

text \<open>\<^verbatim>\<open>strftime('%Y-%m-%d %H:%M:%S')\<close>\<close>

definition strftime_datetime :: "datetime \<Rightarrow> string" where
  "strftime_datetime d =
     strftime_date d @ '' '' @ pad2 (hour d) @ '':'' @ pad2 (minute d) @ '':'' @ pad2 (second d)"

text \<open>
  \<^verbatim>\<open>isoformat()\<close>: the year padded to four digits, a \<open>T\<close> between date and time, and
  the microseconds when not zero.
\<close>

definition isoformat :: "datetime \<Rightarrow> string" where
  "isoformat d =
     pad4 (year d) @ ''-'' @ pad2 (month d) @ ''-'' @ pad2 (day d)
       @ ''T'' @ pad2 (hour d) @ '':'' @ pad2 (minute d) @ '':'' @ pad2 (second d)
       @ (if microsecond d = 0 then [] else ''.'' @ pad6 (microsecond d))"

text \<open>\<^verbatim>\<open>x.strftime(...) if x else None\<close>: a datetime object is always truthy.\<close>

definition fmt_opt :: "(datetime \<Rightarrow> string) \<Rightarrow> datetime option \<Rightarrow> jval" where
  "fmt_opt f x = (case x of None \<Rightarrow> JNull | Some d \<Rightarrow> JStr (f d))"

text \<open>\<^verbatim>\<open>a.date() == b.date()\<close>\<close>

definition same_date :: "datetime \<Rightarrow> datetime \<Rightarrow> bool" where
  "same_date a b = (year a = year b \<and> month a = month b \<and> day a = day b)"

text \<open>The two patterns of the specification, as recognisers.\<close>

definition is_digit :: "char \<Rightarrow> bool" where
  "is_digit c = (c \<in> set ''0123456789'')"

definition is_date_pattern :: "string \<Rightarrow> bool" where
  "is_date_pattern s =
     (length s = 10 \<and> list_all is_digit (take 4 s) \<and> s ! 4 = CHR ''-''
      \<and> list_all is_digit (take 2 (drop 5 s)) \<and> s ! 7 = CHR ''-''
      \<and> list_all is_digit (take 2 (drop 8 s)))"

definition is_datetime_pattern :: "string \<Rightarrow> bool" where
  "is_datetime_pattern s =
     (length s = 19 \<and> is_date_pattern (take 10 s) \<and> s ! 10 = CHR '' ''
      \<and> list_all is_digit (take 2 (drop 11 s)) \<and> s ! 13 = CHR '':''
      \<and> list_all is_digit (take 2 (drop 14 s)) \<and> s ! 16 = CHR '':''
      \<and> list_all is_digit (take 2 (drop 17 s)))"

text \<open>A date field as the specification wants it: null, or a string of one of the patterns.\<close>

fun date_field_ok :: "jval \<Rightarrow> bool" where
  "date_field_ok JNull = True"
| "date_field_ok (JStr s) = (is_datetime_pattern s \<or> is_date_pattern s)"
| "date_field_ok _ = False"

text \<open>A date column that is empty or holds a datetime of a four-digit year.\<close>

definition plain_date :: "datetime option \<Rightarrow> bool" where
  "plain_date x = (case x of None \<Rightarrow> True | Some d \<Rightarrow> valid_datetime d \<and> 1000 \<le> year d)"

section \<open>Relational records\<close>

text \<open>
  Modelled from the spec: the model classes (\<^verbatim>\<open>models.py\<close>) are not part of the
  sources at hand; the records carry the attributes that the data layer reads and writes
  (section 3 of the specification). A column that Python code assigns or reads without a
  conversion holds any Python value; a date column holds a datetime or None.
\<close>

record workspace =
  ws_id :: int
  ws_slug :: string
  ws_name :: jval
  ws_title :: jval
  ws_description :: jval
  ws_about :: jval
  ws_photo :: jval
  ws_contact :: jval
  ws_social :: jval
  ws_settings :: jval
  ws_plan :: jval

record user =
  u_id :: jval
  u_username :: jval
  u_email :: jval
  u_password_hash :: jval
  u_role :: jval
  u_is_demo :: jval
  u_is_verified :: jval
  u_must_change_password :: jval
  u_created_at :: "datetime option"

record skill =
  sk_workspace_id :: int
  sk_name :: jval
  sk_level :: jval

record project =
  p_workspace_id :: int
  p_id :: jval
  p_title :: jval
  p_description :: jval
  p_short_description :: jval
  p_content :: jval
  p_image :: jval
  p_demo_url :: jval
  p_github_url :: jval
  p_technologies :: jval
  p_gallery :: jval
  p_skill_related :: jval
  p_project_type :: jval
  p_badge :: jval
  p_created_at :: "datetime option"
  p_request_budget_min :: jval
  p_request_budget_max :: jval
  p_request_deadline :: "datetime option"
  p_request_status :: jval

section \<open>The view materializer\<close>

definition project_to_dict :: "project \<Rightarrow> jval" where
  "project_to_dict p =
     (let result =
        [(''id'', p_id p),
         (''title'', p_title p),
         (''description'', py_or (p_description p) (JStr [])),
         (''short_description'', py_or (p_short_description p) (JStr [])),
         (''content'', py_or (p_content p) (JStr [])),
         (''image'', py_or (p_image p) (JStr [])),
         (''demo_url'', py_or (p_demo_url p) (JStr [])),
         (''github_url'', py_or (p_github_url p) (JStr [])),
         (''technologies'', py_or (p_technologies p) (JList [])),
         (''gallery'', py_or (p_gallery p) (JList [])),
         (''skill_related'', py_or (p_skill_related p) (JList [])),
         (''project_type'', py_or (p_project_type p) (JStr ''portfolio'')),
         (''badge'', py_or (p_badge p) (JStr [])),
         (''created_at'', fmt_opt strftime_datetime (p_created_at p))]
      in JDict
        (if p_project_type p = JStr ''request''
         then dict_update result
           [(''request_budget_min'', p_request_budget_min p),
            (''request_budget_max'', p_request_budget_max p),
            (''request_deadline'', fmt_opt strftime_date (p_request_deadline p)),
            (''request_status'', py_or (p_request_status p) (JStr ''open''))]
         else result))"

record client =
  c_workspace_id :: int
  c_id :: jval
  c_name :: jval
  c_email :: jval
  c_phone :: jval
  c_company :: jval
  c_project_title :: jval
  c_project_description :: jval
  c_status :: jval
  c_price :: jval
  c_deadline :: "datetime option"
  c_start_date :: "datetime option"
  c_notes :: jval
  c_created_at :: "datetime option"
  c_status_updated_at :: "datetime option"

record message =
  m_workspace_id :: int
  m_id :: jval
  m_name :: jval
  m_email :: jval
  m_message :: jval
  m_is_read :: jval
  m_category :: jval
  m_sender_role :: jval
  m_sender_id :: jval
  m_receiver_id :: jval
  m_request_type :: jval
  m_interest_area :: jval
  m_seriousness :: jval
  m_contact_pref :: jval
  m_company :: jval
  m_created_at :: "datetime option"

record service =
  s_workspace_id :: int
  s_id :: jval
  s_title :: jval
  s_description :: jval
  s_short_description :: jval
  s_category :: jval
  s_pricing_type :: jval
  s_price_min :: jval
  s_price_max :: jval
  s_currency :: jval
  s_deliverables :: jval
  s_duration :: jval
  s_skills_required :: jval
  s_image :: jval
  s_gallery :: jval
  s_is_active :: jval
  s_is_featured :: jval
  s_created_at :: "datetime option"
  s_updated_at :: "datetime option"

record visitor_log =
  v_workspace_id :: int
  v_ip_address :: jval
  v_created_at :: "datetime option"

record notification_settings =
  n_workspace_id :: int
  n_telegram_bot_token :: jval
  n_telegram_chat_id :: jval
  n_telegram_configured_at :: "datetime option"

text \<open>
  The relational store: one table per entity, rows in the order the store returns them.
  A relationship such as \<^verbatim>\<open>workspace.skills\<close> is the rows whose foreign key is the
  workspace's id.
\<close>

record database =
  workspaces :: "workspace list"
  users :: "user list"
  skills :: "skill list"
  projects :: "project list"
  clients :: "client list"
  messages :: "message list"
  services :: "service list"
  visitor_logs :: "visitor_log list"
  notification_rows :: "notification_settings list"

text \<open>The flat file \<^verbatim>\<open>data.json\<close>: missing, present but not parseable, or a JSON document.\<close>

datatype file_state = NoFile | Unreadable | Document jval

text \<open>
  Everything the data layer reads from its surroundings: the relational store and whether
  it answers at all (when it does not, every query raises), the flat file, the clock
  (\<^verbatim>\<open>datetime.utcnow()\<close>), and the helper \<^verbatim>\<open>determine_badge\<close> of
  \<^verbatim>\<open>utils/badges.py\<close>, which is not part of the sources at hand and is taken as it
  comes (it may return any value or raise).
\<close>

record world =
  db :: database
  db_up :: bool
  data_json :: file_state
  utcnow :: datetime
  determine_badge :: "jval \<Rightarrow> error + jval"

section \<open>Exceptions and dynamically typed operations\<close>

definition ebind :: "error + 'a \<Rightarrow> ('a \<Rightarrow> error + 'b) \<Rightarrow> error + 'b" where
  "ebind m f = (case m of Inl e \<Rightarrow> Inl e | Inr v \<Rightarrow> f v)"

fun emap :: "('a \<Rightarrow> error + 'b) \<Rightarrow> 'a list \<Rightarrow> error + 'b list" where
  "emap f [] = Inr []"
| "emap f (x # xs) = ebind (f x) (\<lambda>y. ebind (emap f xs) (\<lambda>ys. Inr (y # ys)))"

text \<open>\<^verbatim>\<open>k in s\<close> for two strings: \<open>k\<close> occurs in \<open>s\<close> as a contiguous piece.\<close>

fun substring :: "string \<Rightarrow> string \<Rightarrow> bool" where
  "substring k [] = (k = [])"
| "substring k (c # cs) = (take (length k) (c # cs) = k \<or> substring k cs)"

text \<open>\<^verbatim>\<open>v.get(k, default)\<close>: only a dict has the method.\<close>

fun py_get :: "jval \<Rightarrow> string \<Rightarrow> jval \<Rightarrow> error + jval" where
  "py_get (JDict kvs) k d = Inr (dict_get kvs k d)"
| "py_get _ k d = Inl AttributeError"

text \<open>\<^verbatim>\<open>k in v\<close> for a string \<open>k\<close>: a key of a dict, an element of a list, a piece of a string.\<close>

fun py_contains :: "jval \<Rightarrow> string \<Rightarrow> error + bool" where
  "py_contains (JDict kvs) k = Inr (k \<in> set (map fst kvs))"
| "py_contains (JList xs) k = Inr (JStr k \<in> set xs)"
| "py_contains (JStr s) k = Inr (substring k s)"
| "py_contains _ k = Inl TypeError"

text \<open>\<^verbatim>\<open>v[k]\<close> for a string \<open>k\<close>.\<close>

fun py_index :: "jval \<Rightarrow> string \<Rightarrow> error + jval" where
  "py_index (JDict kvs) k = (case map_of kvs k of None \<Rightarrow> Inl KeyError | Some v \<Rightarrow> Inr v)"
| "py_index _ k = Inl TypeError"

text \<open>\<^verbatim>\<open>v[k] = x\<close> for a string \<open>k\<close>.\<close>

fun py_setitem :: "jval \<Rightarrow> string \<Rightarrow> jval \<Rightarrow> error + jval" where
  "py_setitem (JDict kvs) k x = Inr (JDict (AList.update k x kvs))"
| "py_setitem _ k x = Inl TypeError"

text \<open>\<^verbatim>\<open>for x in v\<close>: the elements of a list, the keys of a dict, the characters of a string.\<close>

fun py_iter :: "jval \<Rightarrow> error + jval list" where
  "py_iter (JList xs) = Inr xs"
| "py_iter (JDict kvs) = Inr (map (\<lambda>kv. JStr (fst kv)) kvs)"
| "py_iter (JStr s) = Inr (map (\<lambda>c. JStr [c]) s)"
| "py_iter _ = Inl TypeError"

fun is_dict :: "jval \<Rightarrow> bool" where
  "is_dict (JDict kvs) = True"
| "is_dict _ = False"

section \<open>The view materializer, continued\<close>

definition client_to_dict :: "client \<Rightarrow> jval" where
  "client_to_dict c = JDict
     [(''id'', c_id c),
      (''name'', c_name c),
      (''email'', py_or (c_email c) (JStr [])),
      (''phone'', py_or (c_phone c) (JStr [])),
      (''company'', py_or (c_company c) (JStr [])),
      (''project_title'', py_or (c_project_title c) (JStr [])),
      (''project_description'', py_or (c_project_description c) (JStr [])),
      (''status'', py_or (c_status c) (JStr ''lead'')),
      (''price'', py_or (c_price c) (JStr [])),
      (''deadline'', fmt_opt strftime_date (c_deadline c)),
      (''start_date'', fmt_opt strftime_date (c_start_date c)),
      (''notes'', py_or (c_notes c) (JStr [])),
      (''created_at'', fmt_opt strftime_datetime (c_created_at c)),
      (''status_updated_at'', fmt_opt strftime_datetime (c_status_updated_at c))]"

definition message_to_dict :: "message \<Rightarrow> jval" where
  "message_to_dict m = JDict
     [(''id'', m_id m),
      (''name'', m_name m),
      (''email'', m_email m),
      (''message'', m_message m),
      (''read'', m_is_read m),
      (''category'', py_or (m_category m) (JStr ''portfolio'')),
      (''sender_id'', m_sender_id m),
      (''receiver_id'', m_receiver_id m),
      (''date'', fmt_opt strftime_datetime (m_created_at m))]"

definition service_to_dict :: "service \<Rightarrow> jval" where
  "service_to_dict s = JDict
     [(''id'', s_id s),
      (''title'', s_title s),
      (''description'', py_or (s_description s) (JStr [])),
      (''short_description'', py_or (s_short_description s) (JStr [])),
      (''category'', py_or (s_category s) (JStr [])),
      (''pricing_type'', py_or (s_pricing_type s) (JStr ''custom'')),
      (''price_min'', s_price_min s),
      (''price_max'', s_price_max s),
      (''currency'', py_or (s_currency s) (JStr ''USD'')),
      (''deliverables'', py_or (s_deliverables s) (JList [])),
      (''duration'', py_or (s_duration s) (JStr [])),
      (''skills_required'', py_or (s_skills_required s) (JList [])),
      (''image'', py_or (s_image s) (JStr [])),
      (''gallery'', py_or (s_gallery s) (JList [])),
      (''is_active'', s_is_active s),
      (''is_featured'', s_is_featured s),
      (''created_at'', fmt_opt isoformat (s_created_at s)),
      (''updated_at'', fmt_opt isoformat (s_updated_at s))]"

definition user_to_dict :: "user \<Rightarrow> jval" where
  "user_to_dict u = JDict
     [(''id'', u_id u),
      (''username'', u_username u),
      (''email'', u_email u),
      (''password_hash'', u_password_hash u),
      (''role'', u_role u),
      (''is_demo'', u_is_demo u),
      (''is_verified'', u_is_verified u),
      (''must_change_password'', u_must_change_password u),
      (''created_at'', fmt_opt strftime_datetime (u_created_at u))]"

definition get_default_portfolio_data :: jval where
  "get_default_portfolio_data = JDict
     [(''name'', JStr []),
      (''title'', JStr ''Web Developer & Designer''),
      (''description'', JStr ''Welcome to my professional portfolio.''),
      (''skills'', JList []),
      (''projects'', JList []),
      (''services'', JList []),
      (''messages'', JList []),
      (''clients'', JList []),
      (''settings'', JDict [(''theme'', JStr ''luxury-gold'')]),
      (''visitors'', JDict [(''total'', JInt 0), (''today'', JList []), (''unique_ips'', JList [])])]"

text \<open>
  The loop over the visitor log: \<^verbatim>\<open>log.created_at.date()\<close> is not guarded, so a row
  without a timestamp raises; a row of today's date adds an entry.
\<close>

fun today_visits_of :: "datetime \<Rightarrow> visitor_log list \<Rightarrow> error + jval list" where
  "today_visits_of now [] = Inr []"
| "today_visits_of now (l # ls) =
     (case v_created_at l of
        None \<Rightarrow> Inl AttributeError
      | Some t \<Rightarrow>
          ebind (today_visits_of now ls) (\<lambda>rest.
            Inr (if same_date t now
                 then JDict [(''ip'', v_ip_address l),
                             (''timestamp'', JStr (strftime_datetime t)),
                             (''date'', JStr (strftime_date t))] # rest
                 else rest)))"

text \<open>
  The notification mapping: a \<open>telegram\<close> entry only when a settings row exists and its bot
  token is truthy.
\<close>

definition notifications_of :: "notification_settings option \<Rightarrow> jval" where
  "notifications_of ns =
     (case ns of
        None \<Rightarrow> JDict []
      | Some n \<Rightarrow>
          if truthy (n_telegram_bot_token n)
          then JDict [(''telegram'', JDict
                 [(''bot_token'', n_telegram_bot_token n),
                  (''chat_id'', n_telegram_chat_id n),
                  (''configured_at'', fmt_opt strftime_datetime (n_telegram_configured_at n))])]
          else JDict [])"

text \<open>
  \<^verbatim>\<open>workspace_to_dict\<close>. The order of \<^verbatim>\<open>list(unique_ips)\<close> is that of a Python set,
  which is not fixed; the model lists each address once.
\<close>

definition workspace_to_dict :: "world \<Rightarrow> workspace option \<Rightarrow> error + jval" where
  "workspace_to_dict w wso =
     (case wso of
        None \<Rightarrow> Inr get_default_portfolio_data
      | Some ws \<Rightarrow>
          if \<not> db_up w then Inl DatabaseError
          else
            let d = db w;
                skills_l = map (\<lambda>s. JDict [(''name'', sk_name s), (''level'', sk_level s)])
                             (filter (\<lambda>s. sk_workspace_id s = ws_id ws) (skills d));
                projects_l = map project_to_dict (filter (\<lambda>p. p_workspace_id p = ws_id ws) (projects d));
                clients_l = map client_to_dict (filter (\<lambda>c. c_workspace_id c = ws_id ws) (clients d));
                messages_l = map message_to_dict (filter (\<lambda>m. m_workspace_id m = ws_id ws) (messages d));
                services_l = map service_to_dict (filter (\<lambda>s. s_workspace_id s = ws_id ws) (services d));
                logs = filter (\<lambda>l. v_workspace_id l = ws_id ws) (visitor_logs d)
            in ebind (today_visits_of (utcnow w) logs) (\<lambda>today_visits.
                 Inr (JDict
                   [(''username'', JStr (ws_slug ws)),
                    (''name'', ws_name ws),
                    (''title'', py_or (ws_title ws) (JStr [])),
                    (''description'', py_or (ws_description ws) (JStr [])),
                    (''about'', py_or (ws_about ws) (JStr [])),
                    (''photo'', py_or (ws_photo ws) (JStr [])),
                    (''skills'', JList skills_l),
                    (''projects'', JList projects_l),
                    (''clients'', JList clients_l),
                    (''messages'', JList messages_l),
                    (''services'', JList services_l),
                    (''contact'', py_or (ws_contact ws) (JDict [])),
                    (''social'', py_or (ws_social ws) (JDict [])),
                    (''settings'', py_or (ws_settings ws) (JDict [(''theme'', JStr ''luxury-gold'')])),
                    (''visitors'', JDict
                       [(''total'', JInt (int (length logs))),
                        (''today'', JList today_visits),
                        (''unique_ips'', JList (remdups (map v_ip_address logs)))]),
                    (''notifications'',
                       notifications_of (find (\<lambda>n. n_workspace_id n = ws_id ws) (notification_rows d)))])))"

section \<open>The data-access facade\<close>

text \<open>
  A username is a string; the empty string stands for "no username" (\<^verbatim>\<open>None\<close> or
  \<^verbatim>\<open>''\<close>), which every test \<^verbatim>\<open>if username:\<close> of the source treats alike.
  \<^verbatim>\<open>Workspace.query.filter_by(slug=username).first()\<close> is the first row with the slug.
\<close>

definition get_workspace_by_username :: "world \<Rightarrow> string \<Rightarrow> error + workspace option" where
  "get_workspace_by_username w username =
     (if \<not> db_up w then Inl DatabaseError
      else Inr (find (\<lambda>ws. ws_slug ws = username) (workspaces (db w))))"

text \<open>The back-fill of one legacy project of the flat file.\<close>

definition backfill_project :: "world \<Rightarrow> jval \<Rightarrow> error + jval" where
  "backfill_project w project =
     ebind (py_contains project ''project_type'') (\<lambda>has_type.
     ebind (if \<not> has_type then py_setitem project ''project_type'' (JStr ''portfolio'')
            else Inr project) (\<lambda>project1.
     ebind (py_contains project1 ''badge'') (\<lambda>has_badge.
       if \<not> has_badge
       then ebind (py_get project1 ''project_type'' (JStr ''portfolio'')) (\<lambda>pt.
            ebind (determine_badge w pt) (\<lambda>b.
              py_setitem project1 ''badge'' b))
       else Inr project1)))"

text \<open>
  The body of the \<^verbatim>\<open>try\<close> of \<^verbatim>\<open>load_data_from_json\<close>. The projects are updated in
  place; only the elements of a list can change (the keys of a dict and the characters of a
  string are immutable, so the loop either raises on them or leaves them alone).
\<close>

definition load_data_from_json_try :: "world \<Rightarrow> string \<Rightarrow> error + jval" where
  "load_data_from_json_try w username =
     ebind (case data_json w of
              NoFile \<Rightarrow> Inr (JDict [])
            | Unreadable \<Rightarrow> Inl JSONDecodeError
            | Document v \<Rightarrow> Inr v) (\<lambda>data.
       if username \<noteq> [] then
         ebind (py_get data ''portfolios'' (JDict [])) (\<lambda>portfolios.
         ebind (py_contains portfolios username) (\<lambda>present.
           if present then
             ebind (py_index portfolios username) (\<lambda>user_data.
             ebind (py_contains user_data ''projects'') (\<lambda>has_projects.
               if has_projects then
                 ebind (py_index user_data ''projects'') (\<lambda>projs.
                 ebind (py_iter projs) (\<lambda>items.
                 ebind (emap (backfill_project w) items) (\<lambda>items'.
                   case projs of
                     JList _ \<Rightarrow> py_setitem user_data ''projects'' (JList items')
                   | _ \<Rightarrow> Inr user_data)))
               else Inr user_data))
           else Inr get_default_portfolio_data))
       else Inr data)"

definition load_data_from_json :: "world \<Rightarrow> string \<Rightarrow> jval" where
  "load_data_from_json w username =
     (case load_data_from_json_try w username of
        Inl e \<Rightarrow> JDict []
      | Inr v \<Rightarrow> v)"

text \<open>The landing-page summary of one workspace, stored under its slug.\<close>

definition portfolio_summary :: "workspace \<Rightarrow> jval" where
  "portfolio_summary ws = JDict
     [(''name'', ws_name ws),
      (''title'', py_or (ws_title ws) (JStr [])),
      (''description'', py_or (ws_description ws) (JStr [])),
      (''about'', py_or (ws_about ws) (JStr [])),
      (''photo'', py_or (ws_photo ws) (JStr [])),
      (''username'', JStr (ws_slug ws)),
      (''is_verified'', JBool False)]"

text \<open>The body of the \<^verbatim>\<open>try\<close> of \<^verbatim>\<open>load_data\<close>.\<close>

definition load_data_try :: "world \<Rightarrow> string \<Rightarrow> error + jval" where
  "load_data_try w username =
     (if username \<noteq> [] then
        ebind (get_workspace_by_username w username) (\<lambda>workspace.
          case workspace of
            Some ws \<Rightarrow> workspace_to_dict w (Some ws)
          | None \<Rightarrow> Inr (load_data_from_json w username))
      else if \<not> db_up w then Inl DatabaseError
      else Inr (JDict
        [(''users'', JList (map user_to_dict (users (db w)))),
         (''portfolios'', JDict
            (foldl (\<lambda>acc ws. AList.update (ws_slug ws) (portfolio_summary ws) acc) []
               (workspaces (db w))))]))"

definition load_data :: "world \<Rightarrow> string \<Rightarrow> jval" where
  "load_data w username =
     (case load_data_try w username of
        Inl e \<Rightarrow> load_data_from_json w username
      | Inr v \<Rightarrow> v)"

text \<open>
  \<^verbatim>\<open>save_data_to_json\<close>. The backup taken before the write (\<^verbatim>\<open>create_backup\<close> of
  \<^verbatim>\<open>utils/helpers.py\<close>) touches backup files only, which are not part of the state here.
  Any exception leaves the file as it was.
\<close>

definition save_data_to_json_try :: "world \<Rightarrow> (string \<times> jval) list \<Rightarrow> string \<Rightarrow> error + jval" where
  "save_data_to_json_try w user_data username =
     ebind (case data_json w of
              NoFile \<Rightarrow> Inr (JDict [])
            | Unreadable \<Rightarrow> Inl JSONDecodeError
            | Document v \<Rightarrow> Inr v) (\<lambda>all_data.
       if username \<noteq> [] then
         ebind (py_contains all_data ''portfolios'') (\<lambda>has.
         ebind (if \<not> has then py_setitem all_data ''portfolios'' (JDict []) else Inr all_data) (\<lambda>all_data1.
         ebind (py_index all_data1 ''portfolios'') (\<lambda>ports.
         ebind (py_setitem ports username (JDict user_data)) (\<lambda>ports'.
           py_setitem all_data1 ''portfolios'' ports'))))
       else
         (case all_data of
            JDict kvs \<Rightarrow> Inr (JDict (dict_update kvs user_data))
          | _ \<Rightarrow> Inl AttributeError))"

definition save_data_to_json :: "world \<Rightarrow> (string \<times> jval) list \<Rightarrow> string \<Rightarrow> world" where
  "save_data_to_json w user_data username =
     (case save_data_to_json_try w user_data username of
        Inl e \<Rightarrow> w
      | Inr doc \<Rightarrow> w\<lparr>data_json := Document doc\<rparr>)"

text \<open>The primary key that the store gives a new workspace row: one not in use.\<close>

definition fresh_id :: "workspace list \<Rightarrow> int" where
  "fresh_id wss = 1 + foldr (\<lambda>ws m. max (ws_id ws) m) wss 0"

text \<open>
  Modelled from the spec: the column types of \<^verbatim>\<open>models.py\<close>, which is not among the
  sources (section 3 of the specification). A workspace's name and a skill's name are
  texts; title, description, about and photo are texts that may be empty (None); contact,
  social and settings are JSON columns, which take any value; a skill's level is an
  integer (None leaves it to the column's default). When a commit writes another kind of
  value to a column, the store refuses it and the commit raises.
\<close>

fun is_str :: "jval \<Rightarrow> bool" where
  "is_str (JStr s) = True"
| "is_str _ = False"

fun text_value :: "jval \<Rightarrow> bool" where
  "text_value (JStr s) = True"
| "text_value JNull = True"
| "text_value _ = False"

fun int_value :: "jval \<Rightarrow> bool" where
  "int_value (JInt i) = True"
| "int_value JNull = True"
| "int_value _ = False"

text \<open>
  \<^verbatim>\<open>get_or_create_workspace\<close>: a missing workspace is created and committed at once;
  the commit raises when the name is not a text. Modelled from the spec: the columns that
  the constructor call does not set take None, the column defaults of \<^verbatim>\<open>models.py\<close>
  not being among the sources.
\<close>

definition get_or_create_workspace :: "world \<Rightarrow> string \<Rightarrow> jval \<Rightarrow> error + world \<times> workspace" where
  "get_or_create_workspace w username name =
     ebind (get_workspace_by_username w username) (\<lambda>workspace.
       case workspace of
         Some ws \<Rightarrow> Inr (w, ws)
       | None \<Rightarrow>
           let ws = \<lparr>ws_id = fresh_id (workspaces (db w)), ws_slug = username,
                     ws_name = py_or name (JStr username), ws_title = JNull,
                     ws_description = JStr [], ws_about = JNull, ws_photo = JNull,
                     ws_contact = JNull, ws_social = JNull, ws_settings = JNull,
                     ws_plan = JStr ''pro''\<rparr>
           in if is_str (ws_name ws)
              then Inr (w\<lparr>db := (db w)\<lparr>workspaces := workspaces (db w) @ [ws]\<rparr>\<rparr>, ws)
              else Inl DatabaseError)"

text \<open>The row that the session holds is the first one with the slug; an update changes it in place.\<close>

fun update_first :: "('a \<Rightarrow> bool) \<Rightarrow> ('a \<Rightarrow> 'a) \<Rightarrow> 'a list \<Rightarrow> 'a list" where
  "update_first P f [] = []"
| "update_first P f (x # xs) = (if P x then f x # xs else x # update_first P f xs)"

text \<open>One new skill row from one element of the saved skill list.\<close>

definition skill_of :: "int \<Rightarrow> jval \<Rightarrow> error + skill" where
  "skill_of wid skill_data =
     ebind (py_get skill_data ''name'' (JStr [])) (\<lambda>n.
     ebind (py_get skill_data ''level'' (JInt 50)) (\<lambda>l.
       Inr \<lparr>sk_workspace_id = wid, sk_name = n, sk_level = l\<rparr>))"

text \<open>
  The skill rows that the save adds: none at all (\<open>None\<close>) when the view has no
  \<open>skills\<close> key, one per element of the saved list otherwise.
\<close>

definition new_skill_rows :: "int \<Rightarrow> (string \<times> jval) list \<Rightarrow> error + skill list option" where
  "new_skill_rows wid user_data =
     (if ''skills'' \<in> set (map fst user_data) then
        ebind (py_iter (dict_get user_data ''skills'' (JList []))) (\<lambda>items.
        ebind (emap (skill_of wid) items) (\<lambda>new. Inr (Some new)))
      else Inr None)"

text \<open>The skill table after the replacement: the workspace's rows deleted, the new ones added.\<close>

definition replace_skills :: "int \<Rightarrow> skill list option \<Rightarrow> skill list \<Rightarrow> skill list" where
  "replace_skills wid new old =
     (case new of
        None \<Rightarrow> old
      | Some rows \<Rightarrow> filter (\<lambda>s. sk_workspace_id s \<noteq> wid) old @ rows)"

definition update_workspace_fields :: "(string \<times> jval) list \<Rightarrow> workspace \<Rightarrow> workspace" where
  "update_workspace_fields user_data ws =
     ws\<lparr>ws_name := dict_get user_data ''name'' (ws_name ws),
        ws_title := dict_get user_data ''title'' (JStr []),
        ws_description := dict_get user_data ''description'' (JStr []),
        ws_photo := dict_get user_data ''photo'' (JStr []),
        ws_about := dict_get user_data ''about'' (JStr []),
        ws_contact := dict_get user_data ''contact'' (JDict []),
        ws_social := dict_get user_data ''social'' (JDict []),
        ws_settings := dict_get user_data ''settings'' (JDict [(''theme'', JStr ''luxury-gold'')])\<rparr>"

text \<open>
  Whether \<^verbatim>\<open>db.session.commit()\<close> at the end of \<^verbatim>\<open>save_data\<close> goes through: the
  values that the view gives to the workspace's text columns and the new skill rows must
  fit the column types.
\<close>

definition skill_row_ok :: "skill \<Rightarrow> bool" where
  "skill_row_ok s = (is_str (sk_name s) \<and> int_value (sk_level s))"

definition commit_ok :: "(string \<times> jval) list \<Rightarrow> skill list option \<Rightarrow> bool" where
  "commit_ok user_data new =
     ((case map_of user_data ''name'' of None \<Rightarrow> True | Some x \<Rightarrow> is_str x)
      \<and> text_value (dict_get user_data ''title'' (JStr []))
      \<and> text_value (dict_get user_data ''description'' (JStr []))
      \<and> text_value (dict_get user_data ''photo'' (JStr []))
      \<and> text_value (dict_get user_data ''about'' (JStr []))
      \<and> (case new of None \<Rightarrow> True | Some rows \<Rightarrow> list_all skill_row_ok rows))"

text \<open>
  \<^verbatim>\<open>save_data\<close>. The creation of a workspace is committed inside
  \<^verbatim>\<open>get_or_create_workspace\<close>; everything after it is one transaction, which a failure
  (an exception while the skills are read, or a commit that the store refuses) rolls back
  before the flat file is written instead.
\<close>

definition save_data :: "world \<Rightarrow> (string \<times> jval) list \<Rightarrow> string \<Rightarrow> world" where
  "save_data w user_data username =
     (if username = [] then save_data_to_json w user_data username
      else
        case get_or_create_workspace w username (dict_get user_data ''name'' JNull) of
          Inl e \<Rightarrow> save_data_to_json w user_data username
        | Inr (w1, ws) \<Rightarrow>
            (case new_skill_rows (ws_id ws) user_data of
               Inl e \<Rightarrow> save_data_to_json w1 user_data username
             | Inr new \<Rightarrow>
                 if commit_ok user_data new
                 then w1\<lparr>db := (db w1)
                     \<lparr>workspaces := update_first (\<lambda>x. ws_slug x = username)
                                      (update_workspace_fields user_data) (workspaces (db w1)),
                      skills := replace_skills (ws_id ws) new (skills (db w1))\<rparr>\<rparr>
                 else save_data_to_json w1 user_data username))"

section \<open>The public routes\<close>

text \<open>
  What a route hands back: the messages it flashed (text and category) and the body of
  the response. Template rendering, URL building and the demo-mode decorator belong to the
  framework; a rendered page is the template's name with the data passed to it, a redirect
  is the endpoint's name (or the referrer's address).
\<close>

datatype body =
    RenderTemplate string jval jval
  | NotFound404
  | RedirectTo string
  | SendFile string string
  | JsonBody jval

record response =
  flashes :: "(string \<times> string) list"
  body :: body

subsection \<open>The public portfolio page\<close>





subsection \<open>The PDF export chain\<close>

text \<open>
  The two optional renderers as the route meets them. Renderer A (WeasyPrint): the import
  and the rendering give the PDF bytes, or the import fails, or an \<^verbatim>\<open>OSError\<close> with its
  text is raised, or some other exception. Renderer B (pdfkit): whether the import works,
  what \<^verbatim>\<open>shutil.which('wkhtmltopdf')\<close> finds, and what configuring and running the
  renderer with that path (or with no configuration) gives.
\<close>

datatype weasy_outcome =
    WeasyPdf string
  | WeasyImportError
  | WeasyOSError string
  | WeasyOtherError

datatype pdfkit_outcome =
    PdfBytes string
  | RaisesOSError string
  | RaisesOther string

record renderers =
  weasyprint :: weasy_outcome
  pdfkit_installed :: bool
  which_wkhtmltopdf :: "string option"
  pdfkit_from_string :: "string option \<Rightarrow> pdfkit_outcome"

definition msg_libgobject :: string where
  "msg_libgobject = ''PDF generation failed: missing GTK runtime (libgobject). On Windows install the MSYS2 GTK runtime (see https://weasyprint.readthedocs.io/en/latest/install.html#windows) or install wkhtmltopdf and python-pdfkit as an alternative (https://wkhtmltopdf.org/downloads.html).''"

definition msg_no_library :: string where
  "msg_no_library = ''PDF generation library not available. Please install WeasyPrint (and its GTK runtime on Windows) or install wkhtmltopdf and python-pdfkit as an alternative.''"

definition msg_no_wkhtmltopdf :: string where
  "msg_no_wkhtmltopdf = ''wkhtmltopdf not found. Install wkhtmltopdf and ensure it is on the PATH, or install WeasyPrint with GTK runtime on Windows.''"

text \<open>The name of a value's Python type, as an exception's text quotes it.\<close>

fun type_name :: "jval \<Rightarrow> string" where
  "type_name JNull = ''NoneType''"
| "type_name (JBool b) = ''bool''"
| "type_name (JInt i) = ''int''"
| "type_name (JStr s) = ''str''"
| "type_name (JList xs) = ''list''"
| "type_name (JDict kvs) = ''dict''"

text \<open>
  \<^verbatim>\<open>str(e)\<close> of the \<^verbatim>\<open>AttributeError\<close> for a missing method: the type's name and the
  method's, each between apostrophes.
\<close>

definition attribute_error_text :: "jval \<Rightarrow> string \<Rightarrow> string" where
  "attribute_error_text v attr =
     [CHR 0x27] @ type_name v @ [CHR 0x27] @ '' object has no attribute ''
       @ [CHR 0x27] @ attr @ [CHR 0x27]"

text \<open>
  \<^verbatim>\<open>data.get("name", "CV").replace(' ', '_')\<close>: only a dict has \<open>get\<close>, only a string
  has \<open>replace\<close>; the left value is the text of the exception raised otherwise.
\<close>

definition filename_of :: "jval \<Rightarrow> string + string" where
  "filename_of data =
     (case data of
        JDict kvs \<Rightarrow>
          (case dict_get kvs ''name'' (JStr ''CV'') of
             JStr s \<Rightarrow> Inr (map (\<lambda>c. if c = CHR '' '' then CHR ''_'' else c) s)
           | n \<Rightarrow> Inl (attribute_error_text n ''replace''))
      | _ \<Rightarrow> Inl (attribute_error_text data ''get''))"

definition back_to_preview :: "string \<Rightarrow> response" where
  "back_to_preview msg = \<lparr>flashes = [(msg, ''error'')], body = RedirectTo ''portfolio.cv_preview''\<rparr>"

text \<open>The second \<^verbatim>\<open>try\<close> of \<^verbatim>\<open>download_cv\<close>: renderer B.\<close>

definition pdfkit_fallback :: "renderers \<Rightarrow> jval \<Rightarrow> response" where
  "pdfkit_fallback r data =
     (if \<not> pdfkit_installed r then back_to_preview msg_no_library
      else
        let config = (case which_wkhtmltopdf r of
                        None \<Rightarrow> None
                      | Some p \<Rightarrow> if p \<noteq> [] then Some p else None)
        in case pdfkit_from_string r config of
             PdfBytes pdf_bytes \<Rightarrow>
               (case filename_of data of
                  Inr filename \<Rightarrow> \<lparr>flashes = [], body = SendFile pdf_bytes (filename @ ''_CV.pdf'')\<rparr>
                | Inl text \<Rightarrow> back_to_preview (''Error generating PDF: '' @ text))
           | RaisesOSError msg \<Rightarrow> back_to_preview msg_no_wkhtmltopdf
           | RaisesOther msg \<Rightarrow> back_to_preview (''Error generating PDF: '' @ msg))"

text \<open>\<^verbatim>\<open>download_cv\<close>; the session's username defaults to \<open>admin\<close>.\<close>

definition download_cv :: "world \<Rightarrow> renderers \<Rightarrow> string option \<Rightarrow> response" where
  "download_cv w r session_username =
     (let username = (case session_username of None \<Rightarrow> ''admin'' | Some u \<Rightarrow> u);
          data = load_data w username
      in case weasyprint r of
           WeasyPdf pdf \<Rightarrow>
             (case filename_of data of
                Inr filename \<Rightarrow> \<lparr>flashes = [], body = SendFile pdf (filename @ ''_CV.pdf'')\<rparr>
              | Inl e \<Rightarrow> pdfkit_fallback r data)
         | WeasyImportError \<Rightarrow> pdfkit_fallback r data
         | WeasyOSError msg \<Rightarrow>
             if substring ''libgobject-2.0-0'' msg \<or> substring ''libgobject'' msg
             then back_to_preview msg_libgobject
             else pdfkit_fallback r data
         | WeasyOtherError \<Rightarrow> pdfkit_fallback r data)"

text \<open>
  Both renderers unavailable: renderer A's library is missing or fails without the known
  shared-library defect, and renderer B's library is missing, or its binary is (nothing on
  the search path, so that the renderer, run without a configuration, raises the
  \<^verbatim>\<open>OSError\<close> of a missing executable).
\<close>

definition weasy_unavailable :: "renderers \<Rightarrow> bool" where
  "weasy_unavailable r =
     (case weasyprint r of
        WeasyPdf pdf \<Rightarrow> False
      | WeasyImportError \<Rightarrow> True
      | WeasyOSError msg \<Rightarrow> \<not> substring ''libgobject'' msg
      | WeasyOtherError \<Rightarrow> True)"

definition pdfkit_unavailable :: "renderers \<Rightarrow> bool" where
  "pdfkit_unavailable r =
     (\<not> pdfkit_installed r
      \<or> (which_wkhtmltopdf r = None
         \<and> (case pdfkit_from_string r None of RaisesOSError msg \<Rightarrow> True | _ \<Rightarrow> False)))"

fun is_send_file :: "body \<Rightarrow> bool" where
  "is_send_file (SendFile content download_name) = True"
| "is_send_file _ = False"

subsection \<open>Contact intake\<close>

text \<open>
  A character of a string is a code point below 256. Of these, \<^verbatim>\<open>str.strip()\<close>
  removes the ones that \<^verbatim>\<open>str.isspace()\<close> accepts: U+0009 to U+000D, U+001C to U+001F,
  the space, U+0085 and U+00A0.
\<close>

definition is_space :: "char \<Rightarrow> bool" where
  "is_space c =
     (c \<in> set [CHR 0x09, CHR 0x0A, CHR 0x0B, CHR 0x0C, CHR 0x0D, CHR 0x1C, CHR 0x1D, CHR 0x1E,
                CHR 0x1F, CHR 0x20, CHR 0x85, CHR 0xA0])"

definition strip :: "string \<Rightarrow> string" where
  "strip s = rev (dropWhile is_space (rev (dropWhile is_space s)))"

text \<open>\<^verbatim>\<open>request.form.get(k, '')\<close>\<close>

definition form_get :: "(string \<times> string) list \<Rightarrow> string \<Rightarrow> string" where
  "form_get form k = (case map_of form k of None \<Rightarrow> [] | Some v \<Rightarrow> v)"

text \<open>\<^verbatim>\<open>x or None\<close> on a string.\<close>

definition or_none :: "string \<Rightarrow> jval" where
  "or_none x = (if x \<noteq> [] then JStr x else JNull)"

text \<open>\<^verbatim>\<open>redirect(request.referrer or url_for('pages.index'))\<close>\<close>

definition redirect_back :: "string option \<Rightarrow> body" where
  "redirect_back referrer =
     (case referrer of
        None \<Rightarrow> RedirectTo ''pages.index''
      | Some r \<Rightarrow> if r \<noteq> [] then RedirectTo r else RedirectTo ''pages.index'')"

definition msg_sent :: string where
  "msg_sent = ''Message sent successfully! We will get back to you soon.''"

definition msg_failed :: string where
  "msg_failed = ''Error sending message. Please try again.''"

text \<open>
  The row that the intake stores. Modelled from the spec: the primary key and the creation
  time come from column defaults of \<^verbatim>\<open>models.py\<close>, which is not among the sources; the
  key is the row's position and the time is the clock's.
\<close>

definition new_message :: "world \<Rightarrow> workspace \<Rightarrow> (string \<times> string) list \<Rightarrow> message" where
  "new_message w ws form =
     \<lparr>m_workspace_id = ws_id ws,
      m_id = JInt (1 + int (length (messages (db w)))),
      m_name = JStr (strip (form_get form ''name'')),
      m_email = JStr (strip (form_get form ''email'')),
      m_message = JStr (take 5000 (strip (form_get form ''message''))),
      m_is_read = JBool False,
      m_category = JStr ''portfolio'',
      m_sender_role = JStr ''visitor'',
      m_sender_id = JNull,
      m_receiver_id = JNull,
      m_request_type = or_none (strip (form_get form ''request_type'')),
      m_interest_area = or_none (strip (form_get form ''interest_area'')),
      m_seriousness = or_none (strip (form_get form ''seriousness'')),
      m_contact_pref = or_none (strip (form_get form ''contact_pref'')),
      m_company = or_none (strip (form_get form ''company'')),
      m_created_at = Some (utcnow w)\<rparr>"

text \<open>The text handed to the notifier (the pictographs of the source's literal left out).\<close>

definition notification_text :: "(string \<times> string) list \<Rightarrow> string" where
  "notification_text form =
     (let message_content = strip (form_get form ''message'')
      in ''<b>New Portfolio Message</b>'' @ [CHR 0x0A, CHR 0x0A]
         @ ''<b>From:</b> '' @ strip (form_get form ''name'') @ [CHR 0x0A]
         @ ''<b>Email:</b> '' @ strip (form_get form ''email'') @ [CHR 0x0A]
         @ ''<b>Message:</b>'' @ [CHR 0x0A] @ take 200 message_content
         @ (if length message_content > 200 then ''...'' else []))"

text \<open>
  \<^verbatim>\<open>contact\<close>. The rate limiter's answer and the notifier
  (\<^verbatim>\<open>send_telegram_notification\<close> of \<^verbatim>\<open>utils/notifications.py\<close>, not among the
  sources) are parameters: the notifier, given the text and the owner, returns some value,
  which the route ignores, or raises. Every exception inside the route reaches its one
  handler, whose rollback cannot undo a commit already made.
\<close>

definition contact ::
  "world \<Rightarrow> (string \<times> string) list \<Rightarrow> bool \<Rightarrow> string option
     \<Rightarrow> (string \<Rightarrow> string \<Rightarrow> error + jval) \<Rightarrow> world \<times> response" where
  "contact w form rate_ok referrer send_telegram_notification =
     (if form_get form ''website'' \<noteq> []
      then (w, \<lparr>flashes = [], body = JsonBody (JDict [(''success'', JBool True)])\<rparr>)
      else if \<not> rate_ok
      then (w, \<lparr>flashes = [(''Too many requests.'', ''danger'')], body = redirect_back referrer\<rparr>)
      else
        let name = strip (form_get form ''name'');
            email = strip (form_get form ''email'');
            message_content = strip (form_get form ''message'');
            portfolio_owner = strip (form_get form ''portfolio_owner'')
        in if name = [] \<or> email = [] \<or> message_content = [] \<or> portfolio_owner = []
           then (w, \<lparr>flashes = [(''Required fields missing.'', ''danger'')],
                      body = redirect_back referrer\<rparr>)
           else
             case get_workspace_by_username w portfolio_owner of
               Inl e \<Rightarrow> (w, \<lparr>flashes = [(msg_failed, ''danger'')], body = redirect_back referrer\<rparr>)
             | Inr None \<Rightarrow> (w, \<lparr>flashes = [(msg_failed, ''danger'')], body = redirect_back referrer\<rparr>)
             | Inr (Some ws) \<Rightarrow>
                 let w' = w\<lparr>db := (db w)\<lparr>messages := messages (db w) @ [new_message w ws form]\<rparr>\<rparr>
                 in (case send_telegram_notification (notification_text form) portfolio_owner of
                       Inl e \<Rightarrow> (w', \<lparr>flashes = [(msg_failed, ''danger'')],
                                      body = redirect_back referrer\<rparr>)
                     | Inr v \<Rightarrow> (w', \<lparr>flashes = [(msg_sent, ''success'')],
                                      body = redirect_back referrer\<rparr>)))"

section \<open>Notions of the specification\<close>

text \<open>The username has a Workspace record in the relational store.\<close>

definition in_relational_store :: "world \<Rightarrow> string \<Rightarrow> bool" where
  "in_relational_store w username =
     (find (\<lambda>ws. ws_slug ws = username) (workspaces (db w)) \<noteq> None)"

text \<open>
  The username is absent from the flat file: there is no file, or the document is an
  object whose \<open>portfolios\<close> mapping (empty when missing) has no entry for it.
\<close>

definition absent_from_flat_file :: "world \<Rightarrow> string \<Rightarrow> bool" where
  "absent_from_flat_file w username =
     (case data_json w of
        NoFile \<Rightarrow> True
      | Unreadable \<Rightarrow> False
      | Document doc \<Rightarrow>
          (case doc of
             JDict kvs \<Rightarrow>
               (case dict_get kvs ''portfolios'' (JDict []) of
                  JDict ps \<Rightarrow> username \<notin> set (map fst ps)
                | _ \<Rightarrow> False)
           | _ \<Rightarrow> False))"

text \<open>
  The flat file as section 6 of the specification describes it, when it can be read: a
  single JSON object, the entries of whose \<open>portfolios\<close> mapping are objects.
\<close>

definition entries_are_dicts :: "jval \<Rightarrow> bool" where
  "entries_are_dicts v =
     (case v of JDict kvs \<Rightarrow> list_all (\<lambda>kv. is_dict (snd kv)) kvs | _ \<Rightarrow> True)"

definition file_ok :: "file_state \<Rightarrow> bool" where
  "file_ok f =
     (case f of
        NoFile \<Rightarrow> True
      | Unreadable \<Rightarrow> True
      | Document doc \<Rightarrow>
          (case doc of
             JDict kvs \<Rightarrow> entries_are_dicts (dict_get kvs ''portfolios'' (JDict []))
           | _ \<Rightarrow> False))"










section \<open>Sample data\<close>

definition sample_time :: datetime where
  "sample_time = \<lparr>year = 2024, month = 1, day = 2, hour = 3, minute = 4, second = 5,
                   microsecond = 0\<rparr>"

definition empty_db :: database where
  "empty_db = \<lparr>workspaces = [], users = [], skills = [], projects = [], clients = [],
               messages = [], services = [], visitor_logs = [], notification_rows = []\<rparr>"

definition sample_world :: world where
  "sample_world = \<lparr>db = empty_db, db_up = True, data_json = NoFile, utcnow = sample_time,
                    determine_badge = (\<lambda>t. Inr (JStr ''Portfolio''))\<rparr>"

definition sample_project :: "jval \<Rightarrow> project" where
  "sample_project t =
     \<lparr>p_workspace_id = 1, p_id = JInt 7, p_title = JStr ''Shop'', p_description = JNull,
      p_short_description = JNull, p_content = JNull, p_image = JNull, p_demo_url = JNull,
      p_github_url = JNull, p_technologies = JNull, p_gallery = JNull, p_skill_related = JNull,
      p_project_type = t, p_badge = JNull, p_created_at = Some sample_time,
      p_request_budget_min = JInt 100, p_request_budget_max = JInt 200,
      p_request_deadline = None, p_request_status = JNull\<rparr>"

definition sample_service :: service where
  "sample_service =
     \<lparr>s_workspace_id = 1, s_id = JInt 3, s_title = JStr ''Design'', s_description = JNull,
      s_short_description = JNull, s_category = JNull, s_pricing_type = JNull,
      s_price_min = JNull, s_price_max = JNull, s_currency = JNull, s_deliverables = JNull,
      s_duration = JNull, s_skills_required = JNull, s_image = JNull, s_gallery = JNull,
      s_is_active = JBool True, s_is_featured = JBool False,
      s_created_at = Some sample_time, s_updated_at = None\<rparr>"

definition sample_workspace :: workspace where
  "sample_workspace =
     \<lparr>ws_id = 1, ws_slug = ''ann'', ws_name = JStr ''Ann'', ws_title = JNull,
      ws_description = JStr [], ws_about = JNull, ws_photo = JNull, ws_contact = JNull,
      ws_social = JNull, ws_settings = JNull, ws_plan = JStr ''pro''\<rparr>"

definition sample_world_ann :: world where
  "sample_world_ann = sample_world\<lparr>db := empty_db\<lparr>workspaces := [sample_workspace]\<rparr>\<rparr>"

text \<open>Renderer A fails on a shared library other than the known one; renderer B has no binary.\<close>

definition no_renderers :: renderers where
  "no_renderers =
     \<lparr>weasyprint = WeasyOSError ''cannot load library pango'',
      pdfkit_installed = True,
      which_wkhtmltopdf = None,
      pdfkit_from_string = (\<lambda>config. RaisesOSError ''No wkhtmltopdf executable found'')\<rparr>"

text \<open>What the materializer gives for the sample workspace in the otherwise empty store.\<close>

definition sample_view :: jval where
  "sample_view = JDict
     [(''username'', JStr ''ann''), (''name'', JStr ''Ann''), (''title'', JStr []),
      (''description'', JStr []), (''about'', JStr []), (''photo'', JStr []),
      (''skills'', JList []), (''projects'', JList []), (''clients'', JList []),
      (''messages'', JList []), (''services'', JList []),
      (''contact'', JDict []), (''social'', JDict []),
      (''settings'', JDict [(''theme'', JStr ''luxury-gold'')]),
      (''visitors'', JDict [(''total'', JInt 0), (''today'', JList []), (''unique_ips'', JList [])]),
      (''notifications'', JDict [])]"




definition sample_form :: "(string \<times> string) list" where
  "sample_form =
     [(''name'', '' Bob ''), (''email'', ''bob@example.org''), (''message'', ''Hello''),
      (''portfolio_owner'', ''ann'')]"



text \<open>
  A view with every profile field filled in, one without a level and with empty settings,
  and one whose title is a list.
\<close>

definition refused_view :: "(string \<times> jval) list" where
  "refused_view = [(''name'', JStr ''Ann''), (''title'', JList [JStr ''x''])]"



section \<open>Properties\<close>

text \<open>
  C5: the materialized project mapping has the four request keys (budget minimum, budget
  maximum, deadline, status) exactly when the project's type is \<open>request\<close>; for any other
  type, \<open>portfolio\<close> included, the keys are absent rather than bound to None.
\<close>

theorem project_request_keys_iff:
  "has_key (project_to_dict p) ''request_budget_min'' = (p_project_type p = JStr ''request'')
   \<and> has_key (project_to_dict p) ''request_budget_max'' = (p_project_type p = JStr ''request'')
   \<and> has_key (project_to_dict p) ''request_deadline'' = (p_project_type p = JStr ''request'')
   \<and> has_key (project_to_dict p) ''request_status'' = (p_project_type p = JStr ''request'')
   \<and> (p_project_type p = JStr ''portfolio'' \<longrightarrow>
        lookup (project_to_dict p) ''request_budget_min'' = None
      \<and> lookup (project_to_dict p) ''request_budget_max'' = None
      \<and> lookup (project_to_dict p) ''request_deadline'' = None
      \<and> lookup (project_to_dict p) ''request_status'' = None)"
  by (simp add: project_to_dict_def dict_update_def Let_def)

theorem project_request_keys_iff_witness:
  "has_key (project_to_dict (sample_project (JStr ''request''))) ''request_status''
   \<and> \<not> has_key (project_to_dict (sample_project (JStr ''portfolio''))) ''request_status''
   \<and> lookup (project_to_dict (sample_project (JStr ''portfolio''))) ''request_deadline'' = None"
  using project_request_keys_iff [of "sample_project (JStr ''request'')"]
        project_request_keys_iff [of "sample_project (JStr ''portfolio'')"]
  by (simp add: sample_project_def)

text \<open>
  C3: saving a view, under any username and on every path (relational write, roll-back,
  flat-file fallback), leaves the Project, Client, Message and Service tables as they were:
  no row of them is deleted, inserted or changed.
\<close>

theorem save_data_frame:
  "projects (db (save_data w v u)) = projects (db w)
   \<and> clients (db (save_data w v u)) = clients (db w)
   \<and> messages (db (save_data w v u)) = messages (db w)
   \<and> services (db (save_data w v u)) = services (db w)"
  by (auto simp: save_data_def save_data_to_json_def get_or_create_workspace_def ebind_def
        get_workspace_by_username_def Let_def split: sum.splits option.splits prod.splits if_splits)

theorem save_data_frame_witness:
  "projects (db (save_data sample_world_ann [(''name'', JStr ''Ann B''), (''skills'', JList [])] ''ann''))
     = projects (db sample_world_ann)
   \<and> workspaces (db (save_data sample_world_ann [(''name'', JStr ''Ann B''), (''skills'', JList [])] ''ann''))
     \<noteq> workspaces (db sample_world_ann)"
  using save_data_frame [of sample_world_ann "[(''name'', JStr ''Ann B''), (''skills'', JList [])]" "''ann''"]
  by (simp add: save_data_def get_or_create_workspace_def get_workspace_by_username_def
        sample_world_ann_def sample_world_def empty_db_def sample_workspace_def ebind_def
        new_skill_rows_def replace_skills_def commit_ok_def dict_get_def
        update_workspace_fields_def)

subsection \<open>The PDF export chain\<close>

lemma substring_append_left: "substring (a @ b) s \<Longrightarrow> substring a s"
proof (induction s)
  case Nil
  then show ?case by simp
next
  case (Cons c cs)
  show ?case
  proof (cases "take (length (a @ b)) (c # cs) = a @ b")
    case True
    then have "take (length a) (take (length (a @ b)) (c # cs)) = take (length a) (a @ b)"
      by simp
    then have "take (length a) (c # cs) = a"
      by (simp add: min_def)
    then show ?thesis by simp
  next
    case False
    with Cons show ?thesis by simp
  qed
qed

lemma libgobject_versioned: "substring ''libgobject-2.0-0'' s \<Longrightarrow> substring ''libgobject'' s"
  using substring_append_left [of "''libgobject''" "''-2.0-0''" s] by simp

text \<open>
  C8: when both renderers are unavailable, the download streams no file: the response is
  a redirect to the preview page, with one flashed error message telling which library or
  binary to install.
\<close>

theorem download_cv_no_renderer:
  "weasy_unavailable r \<Longrightarrow> pdfkit_unavailable r \<Longrightarrow>
     body (download_cv w r s) = RedirectTo ''portfolio.cv_preview''
     \<and> \<not> is_send_file (body (download_cv w r s))
     \<and> (flashes (download_cv w r s) = [(msg_no_library, ''error'')]
        \<or> flashes (download_cv w r s) = [(msg_no_wkhtmltopdf, ''error'')])"
  by (auto simp: download_cv_def weasy_unavailable_def pdfkit_unavailable_def pdfkit_fallback_def
        back_to_preview_def Let_def dest: libgobject_versioned
        split: weasy_outcome.splits pdfkit_outcome.splits)

theorem download_cv_no_renderer_witness:
  "weasy_unavailable no_renderers \<and> pdfkit_unavailable no_renderers
   \<and> body (download_cv sample_world no_renderers None) = RedirectTo ''portfolio.cv_preview''
   \<and> flashes (download_cv sample_world no_renderers None) = [(msg_no_wkhtmltopdf, ''error'')]"
proof -
  have a: "weasy_unavailable no_renderers"
    by (simp add: weasy_unavailable_def no_renderers_def)
  have b: "pdfkit_unavailable no_renderers"
    by (simp add: pdfkit_unavailable_def no_renderers_def)
  have c: "flashes (download_cv sample_world no_renderers None) \<noteq> [(msg_no_library, ''error'')]"
    by (simp add: download_cv_def no_renderers_def pdfkit_fallback_def back_to_preview_def
          msg_no_library_def msg_no_wkhtmltopdf_def)
  from download_cv_no_renderer [OF a b, of sample_world None] a b c show ?thesis
    by simp
qed

subsection \<open>Exceptions\<close>

lemma ebind_Inr [simp]: "ebind (Inr v) f = f v"
  by (simp add: ebind_def)

lemma ebind_Inl [simp]: "ebind (Inl e) f = Inl e"
  by (simp add: ebind_def)

subsection \<open>Loading\<close>

text \<open>
  C1: for a username (not empty) that resolves to a Workspace record, \<open>load\<close> returns
  exactly the mapping that the materializer produces for that workspace: the facade adds,
  removes and changes nothing.
\<close>

theorem load_data_materializes:
  "username \<noteq> [] \<Longrightarrow> get_workspace_by_username w username = Inr (Some ws) \<Longrightarrow>
   workspace_to_dict w (Some ws) = Inr d \<Longrightarrow> load_data w username = d"
  by (simp add: load_data_def load_data_try_def)

theorem load_data_materializes_witness:
  "''ann'' \<noteq> [] \<and> get_workspace_by_username sample_world_ann ''ann'' = Inr (Some sample_workspace)
   \<and> workspace_to_dict sample_world_ann (Some sample_workspace) = Inr sample_view
   \<and> load_data sample_world_ann ''ann'' = sample_view"
proof -
  have a: "get_workspace_by_username sample_world_ann ''ann'' = Inr (Some sample_workspace)"
    by (simp add: get_workspace_by_username_def sample_world_ann_def sample_world_def
          empty_db_def sample_workspace_def)
  have b: "workspace_to_dict sample_world_ann (Some sample_workspace) = Inr sample_view"
    by (simp add: workspace_to_dict_def sample_world_ann_def sample_world_def empty_db_def
          sample_workspace_def sample_view_def py_or_def notifications_of_def)
  have c: "''ann'' \<noteq> []" by simp
  from load_data_materializes [OF c a b] a b show ?thesis by simp
qed

lemma load_data_from_json_absent:
  "username \<noteq> [] \<Longrightarrow> absent_from_flat_file w username \<Longrightarrow>
   load_data_from_json w username = get_default_portfolio_data"
  by (auto simp: load_data_from_json_def load_data_from_json_try_def absent_from_flat_file_def
        dict_get_def split: file_state.splits jval.splits option.splits)

text \<open>
  C4: for a username (not empty) that is absent from the relational store and from the
  flat file's \<open>portfolios\<close> mapping, \<open>load\<close> returns the hard-coded default template: an
  empty name and no about, photo, contact or social entry (the title and the description
  hold the template's placeholder texts), the theme \<open>luxury-gold\<close> in the settings, and
  empty lists of skills, projects, services, messages and clients.
\<close>

theorem load_data_default:
  assumes "username \<noteq> []" and "\<not> in_relational_store w username"
    and "absent_from_flat_file w username"
  shows "load_data w username = get_default_portfolio_data
         \<and> lookup (load_data w username) ''name'' = Some (JStr [])
         \<and> lookup (load_data w username) ''title'' = Some (JStr ''Web Developer & Designer'')
         \<and> lookup (load_data w username) ''description''
             = Some (JStr ''Welcome to my professional portfolio.'')
         \<and> lookup (load_data w username) ''about'' = None
         \<and> lookup (load_data w username) ''photo'' = None
         \<and> lookup (load_data w username) ''contact'' = None
         \<and> lookup (load_data w username) ''social'' = None
         \<and> lookup (load_data w username) ''settings'' = Some (JDict [(''theme'', JStr ''luxury-gold'')])
         \<and> lookup (load_data w username) ''skills'' = Some (JList [])
         \<and> lookup (load_data w username) ''projects'' = Some (JList [])
         \<and> lookup (load_data w username) ''services'' = Some (JList [])
         \<and> lookup (load_data w username) ''messages'' = Some (JList [])
         \<and> lookup (load_data w username) ''clients'' = Some (JList [])"
proof -
  from assms have "load_data w username = get_default_portfolio_data"
    by (simp add: load_data_def load_data_try_def get_workspace_by_username_def
          in_relational_store_def load_data_from_json_absent)
  then show ?thesis
    by (simp add: get_default_portfolio_data_def)
qed

theorem load_data_default_witness:
  "''bob'' \<noteq> [] \<and> \<not> in_relational_store sample_world_ann ''bob''
   \<and> absent_from_flat_file sample_world_ann ''bob''
   \<and> load_data sample_world_ann ''bob'' = get_default_portfolio_data"
proof -
  have a: "\<not> in_relational_store sample_world_ann ''bob''"
    by (simp add: in_relational_store_def sample_world_ann_def sample_world_def empty_db_def
          sample_workspace_def)
  have b: "absent_from_flat_file sample_world_ann ''bob''"
    by (simp add: absent_from_flat_file_def sample_world_ann_def sample_world_def)
  have c: "''bob'' \<noteq> []" by simp
  from load_data_default [OF c a b] a b show ?thesis by simp
qed

subsection \<open>Totality of loading\<close>









lemma load_data_store_down: "\<not> db_up w \<Longrightarrow> load_data w u = load_data_from_json w u"
  by (simp add: load_data_def load_data_try_def get_workspace_by_username_def)


text \<open>
  The result is a dict only for a flat file of the documented shape: with the store down,
  the global view of a document that is a JSON list is that list.
\<close>

lemma load_data_list_document:
  "load_data (sample_world\<lparr>db_up := False, data_json := Document (JList [])\<rparr>) [] = JList []"
  by (simp add: load_data_store_down load_data_from_json_def load_data_from_json_try_def)

text \<open>
  The documented shape of the flat file is kept by every save under a username, whichever
  path the save takes.
\<close>

lemma entries_are_dicts_update:
  "entries_are_dicts (JDict ps) \<Longrightarrow> entries_are_dicts (JDict (AList.update k (JDict v) ps))"
  by (induction ps) (auto simp: entries_are_dicts_def)

lemma dict_get_update_same: "dict_get (AList.update k x kvs) k d = x"
  by (simp add: dict_get_def update_conv')

lemma setitem_entries:
  "entries_are_dicts ports \<Longrightarrow> py_setitem ports u (JDict v) = Inr ports' \<Longrightarrow> entries_are_dicts ports'"
  by (cases ports) (auto simp: entries_are_dicts_update)

lemma setitem_portfolios_file_ok:
  "py_setitem all1 ''portfolios'' ports' = Inr doc \<Longrightarrow> entries_are_dicts ports' \<Longrightarrow>
   file_ok (Document doc)"
  by (cases all1) (auto simp: file_ok_def dict_get_update_same)

lemma index_portfolios_entries:
  assumes "file_ok (Document all_data)"
    and "py_contains all_data ''portfolios'' = Inr has"
    and "(if \<not> has then py_setitem all_data ''portfolios'' (JDict []) else Inr all_data) = Inr all1"
    and "py_index all1 ''portfolios'' = Inr ports"
  shows "entries_are_dicts ports"
proof -
  from assms(1) obtain kvs where d: "all_data = JDict kvs"
    and ents: "entries_are_dicts (dict_get kvs ''portfolios'' (JDict []))"
    by (auto simp: file_ok_def split: jval.splits)
  show ?thesis
  proof (cases has)
    case True
    with assms(3) d have "all1 = JDict kvs" by simp
    with assms(4) ents show ?thesis
      by (auto simp: dict_get_def split: option.splits)
  next
    case False
    with assms(3) d have "all1 = JDict (AList.update ''portfolios'' (JDict []) kvs)" by auto
    with assms(4) have "ports = JDict []"
      by (auto simp: update_conv' split: option.splits)
    then show ?thesis by (simp add: entries_are_dicts_def)
  qed
qed

lemma save_data_to_json_keeps_file_ok:
  assumes "u \<noteq> []" and "file_ok (data_json w)"
  shows "file_ok (data_json (save_data_to_json w v u))"
proof (cases "save_data_to_json_try w v u")
  case (Inl e)
  with assms(2) show ?thesis by (simp add: save_data_to_json_def)
next
  case (Inr doc)
  define all_data where "all_data = (case data_json w of Document d \<Rightarrow> d | _ \<Rightarrow> JDict [])"
  have ok: "file_ok (Document all_data)"
    using assms(2) by (cases "data_json w") (simp_all add: all_data_def file_ok_def entries_are_dicts_def dict_get_def)
  from Inr have nu: "data_json w \<noteq> Unreadable"
    by (auto simp: save_data_to_json_try_def)
  then have rd: "(case data_json w of NoFile \<Rightarrow> Inr (JDict []) | Unreadable \<Rightarrow> Inl JSONDecodeError
                   | Document v \<Rightarrow> Inr v) = Inr all_data"
    by (cases "data_json w") (simp_all add: all_data_def)
  from Inr assms(1) rd
  have body: "ebind (py_contains all_data ''portfolios'') (\<lambda>has.
         ebind (if \<not> has then py_setitem all_data ''portfolios'' (JDict []) else Inr all_data) (\<lambda>all_data1.
         ebind (py_index all_data1 ''portfolios'') (\<lambda>ports.
         ebind (py_setitem ports u (JDict v)) (\<lambda>ports'.
           py_setitem all_data1 ''portfolios'' ports')))) = Inr doc"
    by (simp add: save_data_to_json_try_def)
  then obtain has all1 ports ports' where
    h: "py_contains all_data ''portfolios'' = Inr has"
    and a1: "(if \<not> has then py_setitem all_data ''portfolios'' (JDict []) else Inr all_data) = Inr all1"
    and p: "py_index all1 ''portfolios'' = Inr ports"
    and p': "py_setitem ports u (JDict v) = Inr ports'"
    and fin: "py_setitem all1 ''portfolios'' ports' = Inr doc"
    by (auto simp: ebind_def split: sum.splits)
  from index_portfolios_entries [OF ok h a1 p] have "entries_are_dicts ports" .
  from setitem_entries [OF this p'] have "entries_are_dicts ports'" .
  from setitem_portfolios_file_ok [OF fin this] have "file_ok (Document doc)" .
  with Inr show ?thesis by (simp add: save_data_to_json_def)
qed

lemma save_data_keeps_file_ok:
  assumes "u \<noteq> []" and "file_ok (data_json w)"
  shows "file_ok (data_json (save_data w v u))"
proof -
  have g: "\<And>w1 ws. get_or_create_workspace w u (dict_get v ''name'' JNull) = Inr (w1, ws)
            \<Longrightarrow> data_json w1 = data_json w"
    by (auto simp: get_or_create_workspace_def get_workspace_by_username_def ebind_def Let_def
          split: if_splits option.splits)
  show ?thesis
  proof (cases "get_or_create_workspace w u (dict_get v ''name'' JNull)")
    case (Inl e)
    with assms show ?thesis
      by (simp add: save_data_def save_data_to_json_keeps_file_ok)
  next
    case (Inr p)
    obtain w1 ws where p: "p = (w1, ws)" by (cases p)
    from g Inr p have dj: "data_json w1 = data_json w" by simp
    with assms(2) have "file_ok (data_json w1)" by simp
    with assms(1) Inr p dj assms(2) show ?thesis
      by (auto simp: save_data_def save_data_to_json_keeps_file_ok split: sum.splits)
  qed
qed









subsection \<open>Contact intake\<close>

text \<open>
  C7 (as amended): for a submission that passes validation and whose Message row is
  stored, the row stays stored whatever the notifier does; whenever the notifier returns,
  whether it reports a delivery or a failure, the submitter gets the success response;
  and when the notifier fails by raising, the exception reaches the route's one handler
  and the submitter is shown the generic failure message.
\<close>

theorem contact_notification_decoupled:
  assumes "form_get form ''website'' = []" and "rate_ok"
    and "strip (form_get form ''name'') \<noteq> []" and "strip (form_get form ''email'') \<noteq> []"
    and "strip (form_get form ''message'') \<noteq> []"
    and "strip (form_get form ''portfolio_owner'') \<noteq> []"
    and "get_workspace_by_username w (strip (form_get form ''portfolio_owner'')) = Inr (Some ws)"
  shows "messages (db (fst (contact w form rate_ok referrer notify)))
           = messages (db w) @ [new_message w ws form]
         \<and> (\<forall>v. notify (notification_text form) (strip (form_get form ''portfolio_owner'')) = Inr v
              \<longrightarrow> snd (contact w form rate_ok referrer notify)
                    = \<lparr>flashes = [(msg_sent, ''success'')], body = redirect_back referrer\<rparr>)
         \<and> (\<forall>e. notify (notification_text form) (strip (form_get form ''portfolio_owner'')) = Inl e
              \<longrightarrow> snd (contact w form rate_ok referrer notify)
                    = \<lparr>flashes = [(msg_failed, ''danger'')], body = redirect_back referrer\<rparr>)"
  using assms by (simp add: contact_def Let_def split: sum.splits)

theorem contact_notification_decoupled_witness:
  "snd (contact sample_world_ann sample_form True None (\<lambda>t u. Inr (JBool False)))
     = \<lparr>flashes = [(msg_sent, ''success'')], body = RedirectTo ''pages.index''\<rparr>
   \<and> messages (db (fst (contact sample_world_ann sample_form True None (\<lambda>t u. Inr (JBool False)))))
     = [new_message sample_world_ann sample_workspace sample_form]"
proof -
  have h1: "form_get sample_form ''website'' = []"
    by (simp add: form_get_def sample_form_def)
  have h3: "strip (form_get sample_form ''name'') \<noteq> []"
    by (simp add: form_get_def sample_form_def strip_def is_space_def)
  have h4: "strip (form_get sample_form ''email'') \<noteq> []"
    by (simp add: form_get_def sample_form_def strip_def is_space_def)
  have h5: "strip (form_get sample_form ''message'') \<noteq> []"
    by (simp add: form_get_def sample_form_def strip_def is_space_def)
  have o: "strip (form_get sample_form ''portfolio_owner'') = ''ann''"
    by (simp add: form_get_def sample_form_def strip_def is_space_def)
  have h6: "strip (form_get sample_form ''portfolio_owner'') \<noteq> []"
    by (simp add: o)
  have h7: "get_workspace_by_username sample_world_ann (strip (form_get sample_form ''portfolio_owner''))
              = Inr (Some sample_workspace)"
    by (simp add: o get_workspace_by_username_def sample_world_ann_def sample_world_def
          empty_db_def sample_workspace_def)
  from contact_notification_decoupled [OF h1 TrueI h3 h4 h5 h6 h7, of None "\<lambda>t u. Inr (JBool False)"]
  show ?thesis
    by (simp add: redirect_back_def sample_world_ann_def sample_world_def empty_db_def)
qed

text \<open>
  The claim as first stated, the success response whatever the notification's outcome,
  fails for a notifier that raises: the valid sample submission is stored, and the
  submitter is told that sending failed.
\<close>

theorem contact_notifier_raises_counterexample:
  "snd (contact sample_world_ann sample_form True None (\<lambda>t u. Inl NotifyError))
     = \<lparr>flashes = [(msg_failed, ''danger'')], body = RedirectTo ''pages.index''\<rparr>
   \<and> length (messages (db (fst (contact sample_world_ann sample_form True None
                                    (\<lambda>t u. Inl NotifyError))))) = 1"
  by (simp add: contact_def Let_def form_get_def sample_form_def strip_def is_space_def
        get_workspace_by_username_def sample_world_ann_def sample_world_def empty_db_def
        sample_workspace_def redirect_back_def)

text \<open>A field made of white space only, U+00A0 and U+001F included, counts as missing.\<close>

lemma contact_blank_name:
  "contact w [(''name'', [CHR 0xA0, CHR 0x1F, CHR '' '']), (''email'', ''bob@example.org''),
              (''message'', ''Hello''), (''portfolio_owner'', ''ann'')] True referrer notify
     = (w, \<lparr>flashes = [(''Required fields missing.'', ''danger'')], body = redirect_back referrer\<rparr>)"
  by (simp add: contact_def Let_def form_get_def strip_def is_space_def)

subsection \<open>The public portfolio page\<close>









subsection \<open>Date fields\<close>

lemma is_digit_digit: "is_digit (digit n)"
proof -
  have "n mod 10 < length ''0123456789''" by simp
  then have "''0123456789'' ! (n mod 10) \<in> set ''0123456789''"
    by (rule nth_mem)
  then show ?thesis by (simp only: is_digit_def digit_def)
qed

lemma decimal_four: "1000 \<le> n \<Longrightarrow> n \<le> 9999 \<Longrightarrow> decimal n = pad4 n"
proof -
  assume lo: "1000 \<le> n" and hi: "n \<le> 9999"
  from hi have a1: "n div 1000 < 10" by arith
  from lo have a2: "\<not> n div 100 < 10" by arith
  from lo have a3: "\<not> n div 10 < 10" by arith
  from lo have a4: "\<not> n < 10" by arith
  have e2: "n div 100 div 10 = n div 1000" by (simp add: div_mult2_eq [symmetric])
  have e3: "n div 10 div 10 = n div 100" by (simp add: div_mult2_eq [symmetric])
  have d1: "decimal (n div 1000) = [digit (n div 1000)]"
    using a1 by (subst decimal.simps) simp
  have d2: "decimal (n div 100) = decimal (n div 1000) @ [digit (n div 100)]"
    using a2 e2 by (subst decimal.simps) simp
  have d3: "decimal (n div 10) = decimal (n div 100) @ [digit (n div 10)]"
    using a3 e3 by (subst decimal.simps) simp
  have d4: "decimal n = decimal (n div 10) @ [digit n]"
    using a4 by (subst decimal.simps) simp
  show ?thesis
    by (simp add: d1 d2 d3 d4 pad4_def)
qed

lemma strftime_date_pattern:
  "valid_datetime d \<Longrightarrow> 1000 \<le> year d \<Longrightarrow> is_date_pattern (strftime_date d)"
  by (simp add: is_date_pattern_def strftime_date_def valid_datetime_def decimal_four
        pad4_def pad2_def is_digit_digit)

lemma strftime_datetime_pattern:
  "valid_datetime d \<Longrightarrow> 1000 \<le> year d \<Longrightarrow> is_datetime_pattern (strftime_datetime d)"
  by (simp add: is_datetime_pattern_def is_date_pattern_def strftime_datetime_def
        strftime_date_def valid_datetime_def decimal_four pad4_def pad2_def is_digit_digit)

text \<open>A year below 1000 is printed short, and the string then has neither pattern.\<close>

lemma strftime_date_short_year:
  "strftime_date \<lparr>year = 999, month = 12, day = 31, hour = 0, minute = 0, second = 0,
                   microsecond = 0\<rparr> = ''999-12-31''
   \<and> \<not> date_field_ok (JStr ''999-12-31'')"
  by (simp add: strftime_date_def decimal.simps pad2_def digit_def is_date_pattern_def
        is_datetime_pattern_def)

lemma fmt_opt_date_ok: "plain_date x \<Longrightarrow> date_field_ok (fmt_opt strftime_date x)"
  by (cases x) (simp_all add: fmt_opt_def plain_date_def strftime_date_pattern)

lemma fmt_opt_datetime_ok: "plain_date x \<Longrightarrow> date_field_ok (fmt_opt strftime_datetime x)"
  by (cases x) (simp_all add: fmt_opt_def plain_date_def strftime_datetime_pattern)

text \<open>
  Projects, clients and messages format every date of a four-digit year with one of the
  two patterns, or give None; so do the notification settings.
\<close>

lemma sibling_dates_ok:
  "plain_date (p_created_at p) \<Longrightarrow> date_field_ok (the (lookup (project_to_dict p) ''created_at''))"
  "p_project_type p = JStr ''request'' \<Longrightarrow> plain_date (p_request_deadline p) \<Longrightarrow>
     date_field_ok (the (lookup (project_to_dict p) ''request_deadline''))"
  "plain_date (c_deadline c) \<Longrightarrow> date_field_ok (the (lookup (client_to_dict c) ''deadline''))"
  "plain_date (c_start_date c) \<Longrightarrow> date_field_ok (the (lookup (client_to_dict c) ''start_date''))"
  "plain_date (c_created_at c) \<Longrightarrow> date_field_ok (the (lookup (client_to_dict c) ''created_at''))"
  "plain_date (c_status_updated_at c) \<Longrightarrow>
     date_field_ok (the (lookup (client_to_dict c) ''status_updated_at''))"
  "plain_date (m_created_at m) \<Longrightarrow> date_field_ok (the (lookup (message_to_dict m) ''date''))"
  by (simp_all add: project_to_dict_def client_to_dict_def message_to_dict_def dict_update_def
        Let_def fmt_opt_date_ok fmt_opt_datetime_ok)

lemma notification_date_ok:
  "truthy (n_telegram_bot_token n) \<Longrightarrow> plain_date (n_telegram_configured_at n) \<Longrightarrow>
     \<exists>t. lookup (notifications_of (Some n)) ''telegram'' = Some t
          \<and> date_field_ok (the (lookup t ''configured_at''))"
  by (simp add: notifications_of_def fmt_opt_datetime_ok)

text \<open>A service's timestamps never have either pattern: \<open>isoformat\<close> puts a \<open>T\<close> in the middle.\<close>

lemma isoformat_not_pattern: "\<not> date_field_ok (JStr (isoformat d))"
  by (simp add: is_datetime_pattern_def is_date_pattern_def isoformat_def
        pad4_def pad2_def pad6_def)

text \<open>
  C6: every present date field of a materialized view should be a string of the pattern
  \<open>YYYY-MM-DD HH:MM:SS\<close> or \<open>YYYY-MM-DD\<close>. The service mapping does not keep to it: the
  sample service, created on 2 January 2024 at 03:04:05, materializes its \<open>created_at\<close> as
  \<open>2024-01-02T03:04:05\<close>, which has neither pattern.
\<close>

theorem service_created_at_isoformat:
  "lookup (service_to_dict sample_service) ''created_at'' = Some (JStr ''2024-01-02T03:04:05'')
   \<and> \<not> date_field_ok (JStr ''2024-01-02T03:04:05'')"
  by (simp add: service_to_dict_def sample_service_def fmt_opt_def isoformat_def
        pad4_def pad2_def digit_def sample_time_def
        is_datetime_pattern_def is_date_pattern_def)

subsection \<open>Saving, then loading\<close>



















text \<open>
  A view that the store refuses is not written to it: the save goes to the flat file, and
  the load, which finds the workspace that the save created, shows the empty title.
\<close>

lemma save_data_refused:
  "lookup (load_data (save_data sample_world refused_view ''ann'') ''ann'') ''title'' = Some (JStr [])
   \<and> data_json (save_data sample_world refused_view ''ann'')
       = Document (JDict [(''portfolios'', JDict [(''ann'', JDict refused_view)])])"
  by (simp add: refused_view_def save_data_def get_or_create_workspace_def
        get_workspace_by_username_def sample_world_def empty_db_def dict_get_def py_or_def
        Let_def fresh_id_def new_skill_rows_def commit_ok_def
        save_data_to_json_def save_data_to_json_try_def
        load_data_def load_data_try_def workspace_to_dict_def notifications_of_def)

end
